theory Spec2Isabelle
  imports Complex_Main
begin

section \<open>Fintrack: installment allocation and monthly invoice totals\<close>

text \<open>
  A shallow embedding of \<^verbatim>\<open>src/storage.ts\<close> (class \<^verbatim>\<open>DatabaseStorage\<close>) over the tables
  declared in \<^verbatim>\<open>src/schema.ts\<close>. The database is an explicit state that every method
  takes and returns; a method that throws returns \<open>Inl\<close> of the error together with
  the state reached so far (the source opens no transaction, so rows written before a
  failure stay written).

  Conventions of the model:
  \<^item> A JavaScript \<^verbatim>\<open>number\<close> is a rational: finite values, computed exactly. The
    binary rounding of \<^verbatim>\<open>totalValue / totalInstallments\<close> is not represented; \<^verbatim>\<open>NaN\<close>
    and the infinities are not values of the model.
  \<^item> A \<^verbatim>\<open>decimal(10, 2)\<close> column holds an integer number of hundredths. Writing a
    number into it rounds to two places (half away from zero, as PostgreSQL's
    \<^verbatim>\<open>numeric\<close> does) and is rejected when the rounded amount needs more than ten
    digits.
  \<^item> An \<^verbatim>\<open>integer\<close> column holds an \<open>int\<close>; writing a number that is not a 32-bit
    integer into it is rejected.
  \<^item> A \<^verbatim>\<open>varchar\<close> primary key filled by \<^verbatim>\<open>gen_random_uuid()\<close> is a natural number
    drawn from a counter of the state, so every new row gets an unused key.
  \<^item> A table is the list of its rows in insertion order; a \<^verbatim>\<open>select\<close> is a
    \<open>filter\<close>. The \<^verbatim>\<open>createdAt\<close> columns (filled by the database clock and read by
    none of the methods below) are left out, as are foreign-key checks, the cascade on
    deleting a card and the \<^verbatim>\<open>categories\<close> table.
  \<^item> A \<^verbatim>\<open>date\<close> column holds a calendar date; \<^verbatim>\<open>new Date("YYYY-MM-DD")\<close> is read
    back with the local-time getters on a host whose time zone is UTC, so the getters
    return the fields of that date.
\<close>

subsection \<open>Values and rows\<close>

type_synonym ident = nat
type_synonym number = rat
type_synonym decimal = int

datatype error = CardNotFound | NumericFieldOverflow | InvalidInteger | IntegerOutOfRange

record date =
  dYear :: int
  dMonth :: int
  dDay :: int

record card =
  card_id :: ident
  bankName :: string
  logoUrl :: "string option"
  closingDay :: int
  dueDay :: int

record purchase =
  p_id :: ident
  p_cardId :: ident
  p_purchaseDate :: date
  p_name :: string
  p_category :: string
  p_totalValue :: decimal
  p_totalInstallments :: int
  p_currentInstallment :: int
  p_installmentValue :: decimal
  p_invoiceMonth :: string

record monthlyInvoice =
  mi_id :: ident
  mi_month :: string
  mi_cardId :: ident
  mi_totalValue :: decimal

text \<open>
  \<^verbatim>\<open>InsertPurchase\<close>, the output type of \<^verbatim>\<open>insertPurchaseSchema\<close>. Its optional
  \<^verbatim>\<open>currentInstallment\<close> is never read by \<^verbatim>\<open>createPurchase\<close> and is left out.
\<close>

record insertPurchase =
  ip_cardId :: ident
  ip_purchaseDate :: date
  ip_name :: string
  ip_category :: string
  ip_totalValue :: number
  ip_totalInstallments :: number

text \<open>The object literal \<^verbatim>\<open>purchaseData\<close> handed to \<^verbatim>\<open>db.insert(purchases)\<close>.\<close>

record purchaseData =
  pd_cardId :: ident
  pd_purchaseDate :: date
  pd_name :: string
  pd_category :: string
  pd_totalValue :: number
  pd_totalInstallments :: number
  pd_currentInstallment :: int
  pd_installmentValue :: number
  pd_invoiceMonth :: string

record db =
  cards :: "card list"
  purchases :: "purchase list"
  monthlyInvoices :: "monthlyInvoice list"
  nextId :: nat

subsection \<open>The validation schema\<close>

text \<open>
  \<^verbatim>\<open>totalInstallments: z.number().min(1).max(99)\<close>: any number from 1 to 99, both
  inclusive. The schema has no \<^verbatim>\<open>.int()\<close>. The other fields are only typed.
\<close>

definition insertPurchaseSchema :: "insertPurchase \<Rightarrow> bool" where
  "insertPurchaseSchema ins \<longleftrightarrow> 1 \<le> ip_totalInstallments ins \<and> ip_totalInstallments ins \<le> 99"

subsection \<open>Column types\<close>

definition roundHalfAway :: "rat \<Rightarrow> int" where
  "roundHalfAway x = (if 0 \<le> x then \<lfloor>x + 1 / 2\<rfloor> else - \<lfloor>- x + 1 / 2\<rfloor>)"

definition toDecimal :: "number \<Rightarrow> error + decimal" where
  "toDecimal x =
     (let c = roundHalfAway (x * 100)
      in if \<bar>c\<bar> < 10 ^ 10 then Inr c else Inl NumericFieldOverflow)"

definition fromDecimal :: "decimal \<Rightarrow> number" where
  "fromDecimal c = of_int c / 100"

definition toInteger :: "number \<Rightarrow> error + int" where
  "toInteger x =
     (if of_int \<lfloor>x\<rfloor> \<noteq> x then Inl InvalidInteger
      else if \<lfloor>x\<rfloor> < - (2 ^ 31) \<or> 2 ^ 31 \<le> \<lfloor>x\<rfloor> then Inl IntegerOutOfRange
      else Inr \<lfloor>x\<rfloor>)"

subsection \<open>JavaScript dates\<close>

text \<open>
  A \<^verbatim>\<open>Date\<close> at local midnight, as its local-time fields: the year, the month counted
  from 0 and the day of the month. \<^verbatim>\<open>setMonth\<close> builds the date from the year, the new
  month and the old day of the month (ECMAScript's MakeDay): months outside 0..11 carry
  into the year, and a day of the month past the end of the month runs on into the
  following month. The day of the month is at least 1 in every date built here.
\<close>

record jsDate =
  jsYear :: int
  jsMonth :: int
  jsDay :: int

definition isLeapYear :: "int \<Rightarrow> bool" where
  "isLeapYear y \<longleftrightarrow> y mod 4 = 0 \<and> (y mod 100 \<noteq> 0 \<or> y mod 400 = 0)"

definition daysInMonth :: "int \<Rightarrow> int \<Rightarrow> int" where
  "daysInMonth y m =
     (if m = 1 then (if isLeapYear y then 29 else 28)
      else if m = 3 \<or> m = 5 \<or> m = 8 \<or> m = 10 then 30
      else 31)"

function makeDay :: "int \<Rightarrow> int \<Rightarrow> int \<Rightarrow> jsDate" where
  "makeDay y m d =
     (if daysInMonth y m < d
      then (if m = 11 then makeDay (y + 1) 0 (d - daysInMonth y m)
            else makeDay y (m + 1) (d - daysInMonth y m))
      else \<lparr>jsYear = y, jsMonth = m, jsDay = d\<rparr>)"
  by pat_completeness auto
termination
  by (relation "measure (\<lambda>(y, m, d). nat d)") (auto simp: daysInMonth_def split: if_splits)

definition newDate :: "date \<Rightarrow> jsDate" where
  "newDate d = \<lparr>jsYear = dYear d, jsMonth = dMonth d - 1, jsDay = dDay d\<rparr>"

definition getFullYear :: "jsDate \<Rightarrow> int" where
  "getFullYear d = jsYear d"

definition getMonth :: "jsDate \<Rightarrow> int" where
  "getMonth d = jsMonth d"

definition getDate :: "jsDate \<Rightarrow> int" where
  "getDate d = jsDay d"

definition setMonth :: "jsDate \<Rightarrow> int \<Rightarrow> jsDate" where
  "setMonth d m = makeDay (jsYear d + m div 12) (m mod 12) (jsDay d)"

subsection \<open>Strings\<close>

definition digitChar :: "nat \<Rightarrow> char" where
  "digitChar n = ''0123456789'' ! n"

function showNat :: "nat \<Rightarrow> string" where
  "showNat n = (if n < 10 then [digitChar n] else showNat (n div 10) @ [digitChar (n mod 10)])"
  by pat_completeness auto
termination
  by (relation "measure id") auto

definition showInt :: "int \<Rightarrow> string" where
  "showInt i = (if i < 0 then CHR ''-'' # showNat (nat (- i)) else showNat (nat i))"

definition padStart :: "nat \<Rightarrow> char \<Rightarrow> string \<Rightarrow> string" where
  "padStart n c s = replicate (n - length s) c @ s"

text \<open>
  The template literal
  \<^verbatim>\<open>`${d.getFullYear()}-${String(d.getMonth() + 1).padStart(2, '0')}`\<close>.
\<close>

definition invoiceMonthOf :: "jsDate \<Rightarrow> string" where
  "invoiceMonthOf d =
     showInt (getFullYear d) @ ''-'' @ padStart 2 (CHR ''0'') (showInt (getMonth d + 1))"

text \<open>\<^verbatim>\<open>Array.from(new Set(xs))\<close>: the distinct elements in order of first occurrence.\<close>

fun setFrom :: "'a list \<Rightarrow> 'a list \<Rightarrow> 'a list" where
  "setFrom acc [] = acc"
| "setFrom acc (x # xs) = setFrom (if x \<in> set acc then acc else acc @ [x]) xs"

definition arrayFromSet :: "'a list \<Rightarrow> 'a list" where
  "arrayFromSet xs = setFrom [] xs"

subsection \<open>Storage methods\<close>

definition getCard :: "db \<Rightarrow> ident \<Rightarrow> card option" where
  "getCard s i = find (\<lambda>c. card_id c = i) (cards s)"

text \<open>
  \<^verbatim>\<open>db.insert(purchases).values(purchaseData).returning()\<close>: the values are coerced to
  the column types, the row gets a new key, and the stored row is returned.
\<close>

definition insertPurchaseRow :: "db \<Rightarrow> purchaseData \<Rightarrow> (error + purchase) \<times> db" where
  "insertPurchaseRow s v =
     (case toDecimal (pd_totalValue v) of
        Inl e \<Rightarrow> (Inl e, s)
      | Inr tv \<Rightarrow>
     (case toInteger (pd_totalInstallments v) of
        Inl e \<Rightarrow> (Inl e, s)
      | Inr n \<Rightarrow>
     (case toDecimal (pd_installmentValue v) of
        Inl e \<Rightarrow> (Inl e, s)
      | Inr iv \<Rightarrow>
          (let row = \<lparr>p_id = nextId s,
                      p_cardId = pd_cardId v,
                      p_purchaseDate = pd_purchaseDate v,
                      p_name = pd_name v,
                      p_category = pd_category v,
                      p_totalValue = tv,
                      p_totalInstallments = n,
                      p_currentInstallment = pd_currentInstallment v,
                      p_installmentValue = iv,
                      p_invoiceMonth = pd_invoiceMonth v\<rparr>
           in (Inr row, s\<lparr>purchases := purchases s @ [row], nextId := Suc (nextId s)\<rparr>)))))"

text \<open>
  The query of \<^verbatim>\<open>updateMonthlyInvoiceForCard\<close>:
  \<^verbatim>\<open>COALESCE(SUM(installment_value), 0)\<close> over the rows of one invoice month and card.
\<close>

definition sumInstallmentValue :: "db \<Rightarrow> string \<Rightarrow> ident \<Rightarrow> decimal" where
  "sumInstallmentValue s month cardId =
     sum_list (map p_installmentValue
       (filter (\<lambda>p. p_invoiceMonth p = month \<and> p_cardId p = cardId) (purchases s)))"

definition updateMonthlyInvoice :: "db \<Rightarrow> string \<Rightarrow> ident \<Rightarrow> number \<Rightarrow> (error + unit) \<times> db" where
  "updateMonthlyInvoice s month cardId totalValue =
     (let existing = filter (\<lambda>r. mi_month r = month \<and> mi_cardId r = cardId) (monthlyInvoices s)
      in if length existing > 0
         then (case toDecimal totalValue of
                 Inl e \<Rightarrow> (Inl e, s)
               | Inr tv \<Rightarrow>
                   (Inr (), s\<lparr>monthlyInvoices :=
                      map (\<lambda>r. if mi_month r = month \<and> mi_cardId r = cardId
                                then r\<lparr>mi_totalValue := tv\<rparr> else r)
                          (monthlyInvoices s)\<rparr>))
         else (case toDecimal totalValue of
                 Inl e \<Rightarrow> (Inl e, s)
               | Inr tv \<Rightarrow>
                   (Inr (), s\<lparr>monthlyInvoices := monthlyInvoices s @
                                 [\<lparr>mi_id = nextId s, mi_month = month,
                                   mi_cardId = cardId, mi_totalValue = tv\<rparr>],
                               nextId := Suc (nextId s)\<rparr>)))"

definition updateMonthlyInvoiceForCard :: "db \<Rightarrow> string \<Rightarrow> ident \<Rightarrow> (error + unit) \<times> db" where
  "updateMonthlyInvoiceForCard s month cardId =
     (let totalValue = fromDecimal (sumInstallmentValue s month cardId)
      in updateMonthlyInvoice s month cardId totalValue)"

text \<open>
  The body of the \<^verbatim>\<open>for\<close> loop of \<^verbatim>\<open>createPurchase\<close>, from counter \<open>i\<close> on, with the
  rows pushed to \<^verbatim>\<open>purchaseList\<close> so far. The bound is the number
  \<^verbatim>\<open>insertPurchase.totalInstallments\<close> itself, compared with the counter on every
  round.
\<close>

function createLoop ::
  "db \<Rightarrow> insertPurchase \<Rightarrow> number \<Rightarrow> jsDate \<Rightarrow> nat \<Rightarrow> purchase list
     \<Rightarrow> (error + purchase list) \<times> db" where
  "createLoop s ins installmentValue firstInvoiceDate i purchaseList =
     (if of_nat i < ip_totalInstallments ins
      then
        (let installmentDate = setMonth firstInvoiceDate (getMonth firstInvoiceDate + int i);
             invoiceMonth = invoiceMonthOf installmentDate;
             purchaseData = \<lparr>pd_cardId = ip_cardId ins,
                             pd_purchaseDate = ip_purchaseDate ins,
                             pd_name = ip_name ins,
                             pd_category = ip_category ins,
                             pd_totalValue = ip_totalValue ins,
                             pd_totalInstallments = ip_totalInstallments ins,
                             pd_currentInstallment = int i + 1,
                             pd_installmentValue = installmentValue,
                             pd_invoiceMonth = invoiceMonth\<rparr>
         in case insertPurchaseRow s purchaseData of
              (Inl e, s1) \<Rightarrow> (Inl e, s1)
            | (Inr purchase, s1) \<Rightarrow>
                (case updateMonthlyInvoiceForCard s1 invoiceMonth (ip_cardId ins) of
                   (Inl e, s2) \<Rightarrow> (Inl e, s2)
                 | (Inr u, s2) \<Rightarrow>
                     createLoop s2 ins installmentValue firstInvoiceDate (Suc i)
                       (purchaseList @ [purchase])))
      else (Inr purchaseList, s))"
  by pat_completeness auto
termination
proof (relation "measure (\<lambda>(s, ins, v, d, i, l). nat \<lceil>ip_totalInstallments ins\<rceil> - i)")
  show "wf (measure (\<lambda>(s, ins, v, d, i, l). nat \<lceil>ip_totalInstallments ins\<rceil> - i))"
    by simp
next
  fix s :: db and ins :: insertPurchase and i :: nat
  fix installmentValue firstInvoiceDate purchaseList x xa xb xc y x1 x1a x2 xd ya x1b x2a
  assume lt: "of_nat i < ip_totalInstallments ins"
  have "int i < \<lceil>ip_totalInstallments ins\<rceil>"
    using lt by (simp add: less_ceiling_iff)
  then have "i < nat \<lceil>ip_totalInstallments ins\<rceil>"
    by simp
  then show "((x2a, ins, installmentValue, firstInvoiceDate, Suc i, purchaseList @ [x1b]),
              (s, ins, installmentValue, firstInvoiceDate, i, purchaseList))
             \<in> measure (\<lambda>(s, ins, v, d, i, l). nat \<lceil>ip_totalInstallments ins\<rceil> - i)"
    by simp
qed

text \<open>
  \<^verbatim>\<open>createPurchase\<close>. The result \<open>Inr None\<close> is the \<^verbatim>\<open>undefined\<close> that
  \<^verbatim>\<open>purchaseList[0]\<close> yields on an empty array. The quotient is computed before the
  card is looked up, as in the source; for a divisor of 0 the source gets an infinity or
  \<^verbatim>\<open>NaN\<close> and the model 0, and neither uses it, since the loop body then never runs.
\<close>

definition createPurchase :: "db \<Rightarrow> insertPurchase \<Rightarrow> (error + purchase option) \<times> db" where
  "createPurchase s ins =
     (let installmentValue = ip_totalValue ins / ip_totalInstallments ins
      in case getCard s (ip_cardId ins) of
           None \<Rightarrow> (Inl CardNotFound, s)
         | Some theCard \<Rightarrow>
             (let purchaseDate = newDate (ip_purchaseDate ins);
                  purchaseDay = getDate purchaseDate;
                  firstInvoiceDate =
                    (if purchaseDay \<ge> closingDay theCard
                     then setMonth purchaseDate (getMonth purchaseDate + 1)
                     else purchaseDate)
              in case createLoop s ins installmentValue firstInvoiceDate 0 [] of
                   (Inl e, s') \<Rightarrow> (Inl e, s')
                 | (Inr purchaseList, s') \<Rightarrow>
                     (Inr (case purchaseList of [] \<Rightarrow> None | p # ps \<Rightarrow> Some p), s')))"




subsection \<open>Notions used in the statements\<close>

text \<open>The rows that one refresh reads and writes.\<close>

definition invoiceMatches :: "string \<Rightarrow> ident \<Rightarrow> monthlyInvoice \<Rightarrow> bool" where
  "invoiceMatches month cardId r \<longleftrightarrow> mi_month r = month \<and> mi_cardId r = cardId"

text \<open>
  The state after a successful \<^verbatim>\<open>updateMonthlyInvoice\<close>, written as one upsert: every
  row of the month and card gets the total, and a row is appended when there is none.
\<close>

definition upserted :: "db \<Rightarrow> string \<Rightarrow> ident \<Rightarrow> decimal \<Rightarrow> db" where
  "upserted s month cardId tv =
     (if \<exists>r \<in> set (monthlyInvoices s). invoiceMatches month cardId r
      then s\<lparr>monthlyInvoices :=
               map (\<lambda>r. if invoiceMatches month cardId r then r\<lparr>mi_totalValue := tv\<rparr> else r)
                   (monthlyInvoices s)\<rparr>
      else s\<lparr>monthlyInvoices := monthlyInvoices s @
                 [\<lparr>mi_id = nextId s, mi_month = month, mi_cardId = cardId, mi_totalValue = tv\<rparr>],
             nextId := Suc (nextId s)\<rparr>)"

text \<open>The \<^verbatim>\<open>purchaseData\<close> of round \<open>i\<close> of the loop of \<^verbatim>\<open>createPurchase\<close>, and that round.\<close>

definition installmentData :: "insertPurchase \<Rightarrow> number \<Rightarrow> jsDate \<Rightarrow> nat \<Rightarrow> purchaseData" where
  "installmentData ins installmentValue firstInvoiceDate i =
     \<lparr>pd_cardId = ip_cardId ins,
      pd_purchaseDate = ip_purchaseDate ins,
      pd_name = ip_name ins,
      pd_category = ip_category ins,
      pd_totalValue = ip_totalValue ins,
      pd_totalInstallments = ip_totalInstallments ins,
      pd_currentInstallment = int i + 1,
      pd_installmentValue = installmentValue,
      pd_invoiceMonth =
        invoiceMonthOf (setMonth firstInvoiceDate (getMonth firstInvoiceDate + int i))\<rparr>"

definition loopBody ::
  "db \<Rightarrow> insertPurchase \<Rightarrow> number \<Rightarrow> jsDate \<Rightarrow> nat \<Rightarrow> (error + purchase) \<times> db" where
  "loopBody s ins installmentValue firstInvoiceDate i =
     (case insertPurchaseRow s (installmentData ins installmentValue firstInvoiceDate i) of
        (Inl e, s1) \<Rightarrow> (Inl e, s1)
      | (Inr purchase, s1) \<Rightarrow>
          (case updateMonthlyInvoiceForCard s1
                  (pd_invoiceMonth (installmentData ins installmentValue firstInvoiceDate i))
                  (ip_cardId ins) of
             (Inl e, s2) \<Rightarrow> (Inl e, s2)
           | (Inr u, s2) \<Rightarrow> (Inr purchase, s2)))"

text \<open>
  The record \<open>p\<close> is what round \<open>k\<close> of the loop stores: the fields of
  \<^verbatim>\<open>purchaseData\<close> after their coercion to the column types.
\<close>

definition storedAs :: "insertPurchase \<Rightarrow> number \<Rightarrow> jsDate \<Rightarrow> nat \<Rightarrow> purchase \<Rightarrow> bool" where
  "storedAs ins installmentValue firstInvoiceDate k p \<longleftrightarrow>
     p_cardId p = ip_cardId ins \<and>
     p_purchaseDate p = ip_purchaseDate ins \<and>
     p_name p = ip_name ins \<and>
     p_category p = ip_category ins \<and>
     toDecimal (ip_totalValue ins) = Inr (p_totalValue p) \<and>
     toInteger (ip_totalInstallments ins) = Inr (p_totalInstallments p) \<and>
     p_currentInstallment p = int k + 1 \<and>
     toDecimal installmentValue = Inr (p_installmentValue p) \<and>
     p_invoiceMonth p =
       invoiceMonthOf (setMonth firstInvoiceDate (getMonth firstInvoiceDate + int k))"

text \<open>A calendar date, and a string of the shape \<^verbatim>\<open>YYYY-MM\<close> with a month from 01 to 12.\<close>

definition validDate :: "date \<Rightarrow> bool" where
  "validDate d \<longleftrightarrow>
     1 \<le> dMonth d \<and> dMonth d \<le> 12 \<and> 1 \<le> dDay d \<and> dDay d \<le> daysInMonth (dYear d) (dMonth d - 1)"



text \<open>The date \<^verbatim>\<open>firstInvoiceDate\<close> that \<^verbatim>\<open>createPurchase\<close> computes before its loop.\<close>

definition firstInvoiceDateOf :: "card \<Rightarrow> insertPurchase \<Rightarrow> jsDate" where
  "firstInvoiceDateOf theCard ins =
     (if getDate (newDate (ip_purchaseDate ins)) \<ge> closingDay theCard
      then setMonth (newDate (ip_purchaseDate ins)) (getMonth (newDate (ip_purchaseDate ins)) + 1)
      else newDate (ip_purchaseDate ins))"





subsection \<open>Example data\<close>

definition exampleCard :: card where
  "exampleCard = \<lparr>card_id = 1, bankName = ''Nubank'', logoUrl = None, closingDay = 10, dueDay = 17\<rparr>"

definition lateCard :: card where
  "lateCard = \<lparr>card_id = 2, bankName = ''Inter'', logoUrl = None, closingDay = 31, dueDay = 7\<rparr>"

definition emptyDb :: db where
  "emptyDb = \<lparr>cards = [exampleCard, lateCard], purchases = [], monthlyInvoices = [], nextId = 3\<rparr>"

definition exampleInput :: insertPurchase where
  "exampleInput =
     \<lparr>ip_cardId = 1, ip_purchaseDate = \<lparr>dYear = 2024, dMonth = 12, dDay = 20\<rparr>,
      ip_name = ''Television'', ip_category = ''home'',
      ip_totalValue = 100, ip_totalInstallments = 3\<rparr>"

text \<open>The state after \<^verbatim>\<open>createPurchase\<close> of that input on that database.\<close>

definition televisionRow :: "ident \<Rightarrow> int \<Rightarrow> string \<Rightarrow> purchase" where
  "televisionRow i k month =
     \<lparr>p_id = i, p_cardId = 1, p_purchaseDate = \<lparr>dYear = 2024, dMonth = 12, dDay = 20\<rparr>,
      p_name = ''Television'', p_category = ''home'', p_totalValue = 10000,
      p_totalInstallments = 3, p_currentInstallment = k, p_installmentValue = 3333,
      p_invoiceMonth = month\<rparr>"

definition televisionDb :: db where
  "televisionDb =
     \<lparr>cards = [exampleCard, lateCard],
      purchases =
        [televisionRow 3 1 ''2025-01'', televisionRow 5 2 ''2025-02'',
         televisionRow 7 3 ''2025-03''],
      monthlyInvoices =
        [\<lparr>mi_id = 4, mi_month = ''2025-01'', mi_cardId = 1, mi_totalValue = 3333\<rparr>,
         \<lparr>mi_id = 6, mi_month = ''2025-02'', mi_cardId = 1, mi_totalValue = 3333\<rparr>,
         \<lparr>mi_id = 8, mi_month = ''2025-03'', mi_cardId = 1, mi_totalValue = 3333\<rparr>],
      nextId = 9\<rparr>"



text \<open>
  Two purchases that agree on card, date, name, total and number of installments (they
  differ in category), and a third purchase of the same card.
\<close>

definition bookInput :: insertPurchase where
  "bookInput =
     \<lparr>ip_cardId = 1, ip_purchaseDate = \<lparr>dYear = 2025, dMonth = 1, dDay = 5\<rparr>,
      ip_name = ''Book'', ip_category = ''leisure'',
      ip_totalValue = 100, ip_totalInstallments = 2\<rparr>"

definition lunchInput :: insertPurchase where
  "lunchInput =
     \<lparr>ip_cardId = 1, ip_purchaseDate = \<lparr>dYear = 2025, dMonth = 1, dDay = 7\<rparr>,
      ip_name = ''Lunch'', ip_category = ''food'',
      ip_totalValue = 85 / 2, ip_totalInstallments = 1\<rparr>"

definition bookRow :: "ident \<Rightarrow> string \<Rightarrow> int \<Rightarrow> string \<Rightarrow> purchase" where
  "bookRow i category k month =
     \<lparr>p_id = i, p_cardId = 1, p_purchaseDate = \<lparr>dYear = 2025, dMonth = 1, dDay = 5\<rparr>,
      p_name = ''Book'', p_category = category, p_totalValue = 10000,
      p_totalInstallments = 2, p_currentInstallment = k, p_installmentValue = 5000,
      p_invoiceMonth = month\<rparr>"

definition lunchRow :: purchase where
  "lunchRow =
     \<lparr>p_id = 9, p_cardId = 1, p_purchaseDate = \<lparr>dYear = 2025, dMonth = 1, dDay = 7\<rparr>,
      p_name = ''Lunch'', p_category = ''food'', p_totalValue = 4250,
      p_totalInstallments = 1, p_currentInstallment = 1, p_installmentValue = 4250,
      p_invoiceMonth = ''2025-01''\<rparr>"

definition twinDb :: db where
  "twinDb =
     \<lparr>cards = [exampleCard, lateCard],
      purchases =
        [bookRow 3 ''leisure'' 1 ''2025-01'', bookRow 5 ''leisure'' 2 ''2025-02'',
         bookRow 7 ''gift'' 1 ''2025-01'', bookRow 8 ''gift'' 2 ''2025-02'',
         lunchRow],
      monthlyInvoices =
        [\<lparr>mi_id = 4, mi_month = ''2025-01'', mi_cardId = 1, mi_totalValue = 14250\<rparr>,
         \<lparr>mi_id = 6, mi_month = ''2025-02'', mi_cardId = 1, mi_totalValue = 10000\<rparr>],
      nextId = 10\<rparr>"



section \<open>Properties\<close>

subsection \<open>Column types\<close>

lemma roundHalfAway_of_int: "roundHalfAway (of_int c) = c"
  by (simp add: roundHalfAway_def floor_eq_iff)

lemma toDecimal_fromDecimal:
  "toDecimal (fromDecimal c) = (if \<bar>c\<bar> < 10 ^ 10 then Inr c else Inl NumericFieldOverflow)"
  by (simp add: toDecimal_def fromDecimal_def roundHalfAway_of_int)

subsection \<open>The aggregate refresh\<close>

lemma updateMonthlyInvoiceForCard_eq:
  "updateMonthlyInvoiceForCard s month cardId =
     (if \<bar>sumInstallmentValue s month cardId\<bar> < 10 ^ 10
      then (Inr (), upserted s month cardId (sumInstallmentValue s month cardId))
      else (Inl NumericFieldOverflow, s))"
  by (auto simp: updateMonthlyInvoiceForCard_def updateMonthlyInvoice_def Let_def
      toDecimal_fromDecimal upserted_def invoiceMatches_def filter_empty_conv)

lemma purchases_upserted [simp]: "purchases (upserted s month cardId tv) = purchases s"
  by (simp add: upserted_def)

lemma cards_upserted [simp]: "cards (upserted s month cardId tv) = cards s"
  by (simp add: upserted_def)

lemma sumInstallmentValue_upserted [simp]:
  "sumInstallmentValue (upserted s month cardId tv) m c = sumInstallmentValue s m c"
  by (simp add: sumInstallmentValue_def)

lemma upserted_has_row:
  "\<exists>r \<in> set (monthlyInvoices (upserted s month cardId tv)). invoiceMatches month cardId r"
proof (cases "\<exists>r \<in> set (monthlyInvoices s). invoiceMatches month cardId r")
  case True
  then obtain r where r: "r \<in> set (monthlyInvoices s)" "invoiceMatches month cardId r"
    by blast
  have "r\<lparr>mi_totalValue := tv\<rparr> \<in> set (monthlyInvoices (upserted s month cardId tv))"
    using True r by (force simp: upserted_def)
  moreover have "invoiceMatches month cardId (r\<lparr>mi_totalValue := tv\<rparr>)"
    using r by (simp add: invoiceMatches_def)
  ultimately show ?thesis by blast
next
  case False
  have "invoiceMatches month cardId
          \<lparr>mi_id = nextId s, mi_month = month, mi_cardId = cardId, mi_totalValue = tv\<rparr>"
    by (simp add: invoiceMatches_def)
  moreover have "\<lparr>mi_id = nextId s, mi_month = month, mi_cardId = cardId, mi_totalValue = tv\<rparr>
                   \<in> set (monthlyInvoices (upserted s month cardId tv))"
    using False by (simp add: upserted_def)
  ultimately show ?thesis by blast
qed

lemma upserted_rows:
  "r \<in> set (monthlyInvoices (upserted s month cardId tv)) \<Longrightarrow>
     (invoiceMatches month cardId r \<and> mi_totalValue r = tv) \<or>
     (\<not> invoiceMatches month cardId r \<and> r \<in> set (monthlyInvoices s))"
  by (auto simp: upserted_def invoiceMatches_def split: if_splits)

lemma upserted_idem:
  "upserted (upserted s month cardId tv) month cardId tv = upserted s month cardId tv"
proof -
  let ?s1 = "upserted s month cardId tv"
  have "map (\<lambda>r. if invoiceMatches month cardId r then r\<lparr>mi_totalValue := tv\<rparr> else r)
            (monthlyInvoices ?s1) = monthlyInvoices ?s1"
  proof (rule map_idI)
    fix r assume "r \<in> set (monthlyInvoices ?s1)"
    from upserted_rows [OF this]
    show "(if invoiceMatches month cardId r then r\<lparr>mi_totalValue := tv\<rparr> else r) = r"
      by auto
  qed
  then show ?thesis
    using upserted_has_row [of s month cardId tv]
    by (simp add: upserted_def [of ?s1])
qed



text \<open>
  C7. Refreshing a month and card a second time, with nothing done in between, returns
  what the first refresh returned and leaves the whole state, the stored total
  included, as the first refresh left it.
\<close>

theorem refresh_idempotent:
  "updateMonthlyInvoiceForCard (snd (updateMonthlyInvoiceForCard s month cardId)) month cardId
     = updateMonthlyInvoiceForCard s month cardId"
  by (simp add: updateMonthlyInvoiceForCard_eq upserted_idem)

subsection \<open>The loop of createPurchase\<close>

declare createLoop.simps [simp del]

lemma toDecimal_ne_CardNotFound: "toDecimal x \<noteq> Inl CardNotFound"
  by (simp add: toDecimal_def Let_def)

lemma toInteger_ne_CardNotFound: "toInteger x \<noteq> Inl CardNotFound"
  by (simp add: toInteger_def)

lemma insertPurchaseRow_Inl:
  "insertPurchaseRow s v = (Inl e, s1) \<Longrightarrow> s1 = s \<and> e \<noteq> CardNotFound"
  using toDecimal_ne_CardNotFound toInteger_ne_CardNotFound
  by (auto simp: insertPurchaseRow_def Let_def split: sum.splits)

lemma insertPurchaseRow_Inr:
  assumes "insertPurchaseRow s v = (Inr p, s1)"
  shows "s1 = s\<lparr>purchases := purchases s @ [p], nextId := Suc (nextId s)\<rparr>"
    and "toDecimal (pd_totalValue v) = Inr (p_totalValue p)"
    and "toInteger (pd_totalInstallments v) = Inr (p_totalInstallments p)"
    and "toDecimal (pd_installmentValue v) = Inr (p_installmentValue p)"
    and "p_id p = nextId s"
    and "p_cardId p = pd_cardId v"
    and "p_purchaseDate p = pd_purchaseDate v"
    and "p_name p = pd_name v"
    and "p_category p = pd_category v"
    and "p_currentInstallment p = pd_currentInstallment v"
    and "p_invoiceMonth p = pd_invoiceMonth v"
  using assms by (auto simp: insertPurchaseRow_def Let_def split: sum.splits)

lemma createLoop_unfold:
  "createLoop s ins v d i l =
     (if of_nat i < ip_totalInstallments ins
      then (case loopBody s ins v d i of
              (Inl e, s') \<Rightarrow> (Inl e, s')
            | (Inr p, s') \<Rightarrow> createLoop s' ins v d (Suc i) (l @ [p]))
      else (Inr l, s))"
  by (subst createLoop.simps)
     (simp add: loopBody_def installmentData_def Let_def split: prod.splits sum.splits)

lemma createLoop_induct [case_names step]:
  assumes "\<And>s i l.
     (\<And>p s'. of_nat i < ip_totalInstallments ins \<Longrightarrow> loopBody s ins v d i = (Inr p, s')
         \<Longrightarrow> P s' (Suc i) (l @ [p])) \<Longrightarrow> P s i l"
  shows "P s i l"
proof (induction "nat \<lceil>ip_totalInstallments ins\<rceil> - i" arbitrary: s i l rule: less_induct)
  case (less i s l)
  show ?case
  proof (rule assms)
    fix p s'
    assume lt: "of_nat i < ip_totalInstallments ins"
    have "int i < \<lceil>ip_totalInstallments ins\<rceil>"
      using lt by (simp add: less_ceiling_iff)
    then have "nat \<lceil>ip_totalInstallments ins\<rceil> - Suc i < nat \<lceil>ip_totalInstallments ins\<rceil> - i"
      by linarith
    then show "P s' (Suc i) (l @ [p])"
      by (rule less.hyps)
  qed
qed

lemma loopBody_Inl: "loopBody s ins v d i = (Inl e, s') \<Longrightarrow> e \<noteq> CardNotFound"
  by (auto simp: loopBody_def updateMonthlyInvoiceForCard_eq
      split: prod.splits sum.splits if_splits dest: insertPurchaseRow_Inl)

lemma createLoop_ne_CardNotFound:
  "fst (createLoop s ins v d i l) \<noteq> Inl CardNotFound"
proof (induction s i l rule: createLoop_induct [where ins = ins and v = v and d = d])
  case (step s i l)
  show ?case
  proof (cases "of_nat i < ip_totalInstallments ins")
    case False
    then show ?thesis by (simp add: createLoop_unfold [of s])
  next
    case True
    obtain r s' where b: "loopBody s ins v d i = (r, s')" by (cases "loopBody s ins v d i")
    show ?thesis
    proof (cases r)
      case (Inl e)
      with b True loopBody_Inl [of s ins v d i e s'] show ?thesis
        by (simp add: createLoop_unfold [of s])
    next
      case (Inr p)
      with b True step [of p s'] show ?thesis
        by (simp add: createLoop_unfold [of s])
    qed
  qed
qed

lemma createPurchase_eq:
  "createPurchase s ins =
     (case getCard s (ip_cardId ins) of
        None \<Rightarrow> (Inl CardNotFound, s)
      | Some c \<Rightarrow>
          (case createLoop s ins (ip_totalValue ins / ip_totalInstallments ins)
                  (firstInvoiceDateOf c ins) 0 [] of
             (Inl e, s') \<Rightarrow> (Inl e, s')
           | (Inr l, s') \<Rightarrow> (Inr (case l of [] \<Rightarrow> None | p # ps \<Rightarrow> Some p), s')))"
  by (simp add: createPurchase_def firstInvoiceDateOf_def Let_def split: option.splits)

text \<open>
  C9. \<^verbatim>\<open>createPurchase\<close> fails with \<open>CardNotFound\<close> exactly when \<^verbatim>\<open>getCard\<close> finds no card,
  that is when no row of \<^verbatim>\<open>cards\<close> has the given id; it then returns the state it was
  given: no installment record and no invoice row is written or changed. Every other
  failure is a different error.
\<close>

theorem createPurchase_CardNotFound_iff:
  "(fst (createPurchase s ins) = Inl CardNotFound) = (getCard s (ip_cardId ins) = None) \<and>
   (getCard s (ip_cardId ins) = None) = (\<forall>c \<in> set (cards s). card_id c \<noteq> ip_cardId ins) \<and>
   (getCard s (ip_cardId ins) = None \<longrightarrow> snd (createPurchase s ins) = s)"
proof -
  have "fst (createPurchase s ins) \<noteq> Inl CardNotFound" if "getCard s (ip_cardId ins) = Some c" for c
    using that createLoop_ne_CardNotFound
      [of s ins "ip_totalValue ins / ip_totalInstallments ins" "firstInvoiceDateOf c ins" 0 "[]"]
    by (auto simp: createPurchase_eq split: prod.splits sum.splits)
  moreover have "createPurchase s ins = (Inl CardNotFound, s)" if "getCard s (ip_cardId ins) = None"
    using that by (simp add: createPurchase_eq)
  moreover have "(getCard s (ip_cardId ins) = None) = (\<forall>c \<in> set (cards s). card_id c \<noteq> ip_cardId ins)"
    by (auto simp: getCard_def find_None_iff)
  ultimately show ?thesis
    by (cases "getCard s (ip_cardId ins)") auto
qed

theorem createPurchase_CardNotFound_witness:
  "getCard emptyDb (ip_cardId (exampleInput\<lparr>ip_cardId := 7\<rparr>)) = None \<and>
   createPurchase emptyDb (exampleInput\<lparr>ip_cardId := 7\<rparr>) = (Inl CardNotFound, emptyDb) \<and>
   getCard emptyDb (ip_cardId exampleInput) = Some exampleCard \<and>
   fst (createPurchase emptyDb exampleInput) \<noteq> Inl CardNotFound"
  using createPurchase_CardNotFound_iff [of emptyDb "exampleInput\<lparr>ip_cardId := 7\<rparr>"]
        createPurchase_CardNotFound_iff [of emptyDb exampleInput]
  by (simp add: getCard_def emptyDb_def exampleInput_def exampleCard_def lateCard_def
      prod_eq_iff)

subsection \<open>The invariant of the monthly totals\<close>









lemma set_setFrom: "set (setFrom acc xs) = set acc \<union> set xs"
  by (induction xs arbitrary: acc) auto

lemma distinct_setFrom: "distinct acc \<Longrightarrow> distinct (setFrom acc xs)"
  by (induction xs arbitrary: acc) auto

lemma set_arrayFromSet [simp]: "set (arrayFromSet xs) = set xs"
  by (simp add: arrayFromSet_def set_setFrom)

lemma distinct_arrayFromSet [simp]: "distinct (arrayFromSet xs)"
  by (simp add: arrayFromSet_def distinct_setFrom)




lemma createPurchase_example:
  "createPurchase emptyDb exampleInput = (Inr (Some (televisionRow 3 1 ''2025-01'')), televisionDb)"
  by code_simp



subsection \<open>deletePurchase\<close>

lemma twinDb_reachable:
  "createPurchase
     (snd (createPurchase (snd (createPurchase emptyDb bookInput))
        (bookInput\<lparr>ip_category := ''gift''\<rparr>)))
     lunchInput = (Inr (Some lunchRow), twinDb)"
  by code_simp










subsection \<open>The records that createPurchase stores\<close>

lemma loopBody_Inr:
  assumes "loopBody s ins v d i = (Inr p, s')"
  shows "purchases s' = purchases s @ [p]" and "storedAs ins v d i p" and "cards s' = cards s"
proof -
  let ?v = "installmentData ins v d i"
  from assms obtain s1 u where
    ins: "insertPurchaseRow s ?v = (Inr p, s1)" and
    upd: "updateMonthlyInvoiceForCard s1 (pd_invoiceMonth ?v) (ip_cardId ins) = (Inr u, s')"
    by (auto simp: loopBody_def split: prod.splits sum.splits)
  have s1: "purchases s1 = purchases s @ [p]" "cards s1 = cards s"
    using insertPurchaseRow_Inr(1) [OF ins] by simp_all
  have s': "purchases s' = purchases s1" "cards s' = cards s1"
    using upd by (auto simp: updateMonthlyInvoiceForCard_eq split: if_splits)
  show "purchases s' = purchases s @ [p]" and "cards s' = cards s"
    using s1 s' by simp_all
  show "storedAs ins v d i p"
    using insertPurchaseRow_Inr(2-11) [OF ins]
    by (simp add: storedAs_def installmentData_def)
qed

lemma createLoop_rows:
  "createLoop s ins v d i l = (Inr rows, s') \<Longrightarrow>
     \<exists>new. rows = l @ new \<and> purchases s' = purchases s @ new \<and>
           length new = nat \<lceil>ip_totalInstallments ins\<rceil> - i \<and>
           (\<forall>k < length new. storedAs ins v d (i + k) (new ! k))"
proof (induction s i l rule: createLoop_induct [where ins = ins and v = v and d = d])
  case (step s i l)
  show ?case
  proof (cases "of_nat i < ip_totalInstallments ins")
    case False
    then have "\<lceil>ip_totalInstallments ins\<rceil> \<le> int i"
      by (simp add: ceiling_le_iff)
    then have "nat \<lceil>ip_totalInstallments ins\<rceil> - i = 0"
      by simp
    with False step.prems show ?thesis
      by (simp add: createLoop_unfold [of s])
  next
    case True
    then have "int i < \<lceil>ip_totalInstallments ins\<rceil>"
      by (simp add: less_ceiling_iff)
    then have len: "nat \<lceil>ip_totalInstallments ins\<rceil> - i = Suc (nat \<lceil>ip_totalInstallments ins\<rceil> - Suc i)"
      by linarith
    obtain r s1 where b: "loopBody s ins v d i = (r, s1)" by (cases "loopBody s ins v d i")
    show ?thesis
    proof (cases r)
      case (Inl e)
      with b True step.prems show ?thesis
        by (simp add: createLoop_unfold [of s])
    next
      case (Inr p)
      have rec: "createLoop s1 ins v d (Suc i) (l @ [p]) = (Inr rows, s')"
        using b True Inr step.prems by (simp add: createLoop_unfold [of s])
      from step.IH [OF True _ rec] b Inr obtain new where
        new: "rows = (l @ [p]) @ new" "purchases s' = purchases s1 @ new"
             "length new = nat \<lceil>ip_totalInstallments ins\<rceil> - Suc i"
             "\<forall>k < length new. storedAs ins v d (Suc i + k) (new ! k)"
        by auto
      note body = loopBody_Inr [OF b [unfolded Inr]]
      have "\<forall>k < length (p # new). storedAs ins v d (i + k) ((p # new) ! k)"
      proof (intro allI impI)
        fix k assume k: "k < length (p # new)"
        show "storedAs ins v d (i + k) ((p # new) ! k)"
        proof (cases k)
          case 0
          with body(2) show ?thesis by simp
        next
          case (Suc j)
          with k new(4) show ?thesis by simp
        qed
      qed
      moreover have "rows = l @ (p # new)" "purchases s' = purchases s @ (p # new)"
        using new(1,2) body(1) by simp_all
      moreover have "length (p # new) = nat \<lceil>ip_totalInstallments ins\<rceil> - i"
        using new(3) len by simp
      ultimately show ?thesis
        by blast
    qed
  qed
qed

lemma toInteger_Inr: "toInteger x = Inr n \<Longrightarrow> x = of_int n"
  by (auto simp: toInteger_def split: if_splits)

lemma createPurchase_rows:
  assumes "createPurchase s ins = (Inr r, s')"
  shows "\<exists>c new. getCard s (ip_cardId ins) = Some c \<and>
           purchases s' = purchases s @ new \<and>
           length new = nat \<lceil>ip_totalInstallments ins\<rceil> \<and>
           (\<forall>k < length new.
              storedAs ins (ip_totalValue ins / ip_totalInstallments ins)
                (firstInvoiceDateOf c ins) k (new ! k)) \<and>
           r = (case new of [] \<Rightarrow> None | p # ps \<Rightarrow> Some p)"
proof -
  from assms obtain c rows where
    c: "getCard s (ip_cardId ins) = Some c" and
    l: "createLoop s ins (ip_totalValue ins / ip_totalInstallments ins)
          (firstInvoiceDateOf c ins) 0 [] = (Inr rows, s')" and
    r: "r = (case rows of [] \<Rightarrow> None | p # ps \<Rightarrow> Some p)"
    by (auto simp: createPurchase_eq split: option.splits prod.splits sum.splits)
  from createLoop_rows [OF l] c r show ?thesis
    by auto
qed

text \<open>With at least one installment requested, a normal return stores that many rows.\<close>

lemma createPurchase_rows_count:
  assumes "createPurchase s ins = (Inr r, s')" and "1 \<le> ip_totalInstallments ins"
  shows "\<exists>c new. getCard s (ip_cardId ins) = Some c \<and>
           purchases s' = purchases s @ new \<and>
           new \<noteq> [] \<and>
           of_nat (length new) = ip_totalInstallments ins \<and>
           (\<forall>k < length new.
              storedAs ins (ip_totalValue ins / ip_totalInstallments ins)
                (firstInvoiceDateOf c ins) k (new ! k)) \<and>
           r = Some (new ! 0)"
proof -
  from createPurchase_rows [OF assms(1)] obtain c new where
    n: "getCard s (ip_cardId ins) = Some c"
       "purchases s' = purchases s @ new"
       "length new = nat \<lceil>ip_totalInstallments ins\<rceil>"
       "\<forall>k < length new.
              storedAs ins (ip_totalValue ins / ip_totalInstallments ins)
                (firstInvoiceDateOf c ins) k (new ! k)"
       "r = (case new of [] \<Rightarrow> None | p # ps \<Rightarrow> Some p)"
    by blast
  have "1 \<le> \<lceil>ip_totalInstallments ins\<rceil>"
    using assms(2) by (simp add: le_ceiling_iff)
  then have pos: "0 < length new"
    using n(3) by simp
  then have "storedAs ins (ip_totalValue ins / ip_totalInstallments ins)
                (firstInvoiceDateOf c ins) 0 (new ! 0)"
    using n(4) by blast
  then have "toInteger (ip_totalInstallments ins) = Inr (p_totalInstallments (new ! 0))"
    by (simp add: storedAs_def)
  from toInteger_Inr [OF this] have "of_nat (length new) = ip_totalInstallments ins"
    using n(3) assms(2) by simp
  moreover have "r = Some (new ! 0)" "new \<noteq> []"
    using pos n(5) by (cases new; simp)+
  ultimately show ?thesis
    using n(1,2,4) by blast
qed

subsection \<open>The first record returned\<close>

text \<open>
  Without the validation, a request for no installment returns \<^verbatim>\<open>undefined\<close>.
\<close>

lemma createPurchase_zero_installments:
  "createPurchase emptyDb (exampleInput\<lparr>ip_totalInstallments := 0\<rparr>) = (Inr None, emptyDb)"
  by code_simp

text \<open>
  C10 (amended). An input accepted by \<^verbatim>\<open>insertPurchaseSchema\<close> has a number of
  installments from 1 to 99; the schema does not ask for an integer. For such an input
  the guard of the loop holds at counter 0, so the first round is run, and
  \<^verbatim>\<open>createPurchase\<close> never returns \<^verbatim>\<open>undefined\<close>: when it returns normally the result is
  the stored record of the first installment, and the number of installments was an
  integer.
\<close>

theorem accepted_input_runs_loop:
  assumes "insertPurchaseSchema ins"
  shows "1 \<le> ip_totalInstallments ins \<and> ip_totalInstallments ins \<le> 99 \<and>
         createLoop s ins v d 0 [] =
           (case loopBody s ins v d 0 of
              (Inl e, s1) \<Rightarrow> (Inl e, s1)
            | (Inr p, s1) \<Rightarrow> createLoop s1 ins v d 1 [p]) \<and>
         fst (createPurchase s ins) \<noteq> Inr None \<and>
         (createPurchase s ins = (Inr r, s') \<longrightarrow>
            (\<exists>p. r = Some p \<and> p \<in> set (purchases s') \<and> p_currentInstallment p = 1 \<and>
                 of_int (p_totalInstallments p) = ip_totalInstallments ins))"
proof -
  from assms have n: "1 \<le> ip_totalInstallments ins" "ip_totalInstallments ins \<le> 99"
    by (simp_all add: insertPurchaseSchema_def)
  have loop: "createLoop s ins v d 0 [] =
           (case loopBody s ins v d 0 of
              (Inl e, s1) \<Rightarrow> (Inl e, s1)
            | (Inr p, s1) \<Rightarrow> createLoop s1 ins v d 1 [p])"
    using n(1) by (simp add: createLoop_unfold [of s ins v d 0] split: prod.splits sum.splits)
  have some: "\<exists>p. r = Some p \<and> p \<in> set (purchases s') \<and> p_currentInstallment p = 1 \<and>
                 of_int (p_totalInstallments p) = ip_totalInstallments ins"
    if "createPurchase s ins = (Inr r, s')" for r s'
  proof -
    from createPurchase_rows_count [OF that n(1)] obtain c new where
      new: "purchases s' = purchases s @ new" "new \<noteq> []"
           "\<forall>k < length new.
              storedAs ins (ip_totalValue ins / ip_totalInstallments ins)
                (firstInvoiceDateOf c ins) k (new ! k)"
           "r = Some (new ! 0)"
      by blast
    from new(2,3) have "storedAs ins (ip_totalValue ins / ip_totalInstallments ins)
                (firstInvoiceDateOf c ins) 0 (new ! 0)"
      by simp
    then have "p_currentInstallment (new ! 0) = 1"
      and "toInteger (ip_totalInstallments ins) = Inr (p_totalInstallments (new ! 0))"
      by (simp_all add: storedAs_def)
    then have "p_currentInstallment (new ! 0) = 1"
      and "of_int (p_totalInstallments (new ! 0)) = ip_totalInstallments ins"
      using toInteger_Inr [of "ip_totalInstallments ins" "p_totalInstallments (new ! 0)"]
      by simp_all
    moreover have "new ! 0 \<in> set (purchases s')"
      using new(1,2) by simp
    ultimately show ?thesis
      using new(4) by blast
  qed
  have "fst (createPurchase s ins) \<noteq> Inr None"
  proof
    assume "fst (createPurchase s ins) = Inr None"
    then have "createPurchase s ins = (Inr None, snd (createPurchase s ins))"
      by (simp add: prod_eq_iff)
    from some [OF this] show False
      by simp
  qed
  with n loop some show ?thesis
    by blast
qed

theorem accepted_input_runs_loop_witness:
  "insertPurchaseSchema exampleInput \<and>
   createPurchase emptyDb exampleInput =
     (Inr (Some (televisionRow 3 1 ''2025-01'')), televisionDb) \<and>
   fst (createPurchase emptyDb exampleInput) \<noteq> Inr None \<and>
   televisionRow 3 1 ''2025-01'' \<in> set (purchases televisionDb) \<and>
   p_currentInstallment (televisionRow 3 1 ''2025-01'') = 1"
proof -
  have a: "insertPurchaseSchema exampleInput"
    by (simp add: insertPurchaseSchema_def exampleInput_def)
  from accepted_input_runs_loop
         [OF a, of emptyDb _ _ "Some (televisionRow 3 1 ''2025-01'')" televisionDb]
       createPurchase_example
  have "fst (createPurchase emptyDb exampleInput) \<noteq> Inr None"
    and "televisionRow 3 1 ''2025-01'' \<in> set (purchases televisionDb) \<and>
         p_currentInstallment (televisionRow 3 1 ''2025-01'') = 1"
    by auto
  then show ?thesis
    using a createPurchase_example by simp
qed

text \<open>
  C10 as stated fails: the schema accepts one and a half installments, which is not an
  integer. The first insert of \<^verbatim>\<open>createPurchase\<close> is then rejected by the
  \<^verbatim>\<open>integer\<close> column.
\<close>

theorem schema_accepts_fraction:
  "insertPurchaseSchema (exampleInput\<lparr>ip_totalInstallments := 3 / 2\<rparr>) \<and>
   \<not> (\<exists>n :: int. ip_totalInstallments (exampleInput\<lparr>ip_totalInstallments := 3 / 2\<rparr>) = of_int n) \<and>
   createPurchase emptyDb (exampleInput\<lparr>ip_totalInstallments := 3 / 2\<rparr>)
     = (Inl InvalidInteger, emptyDb)"
proof -
  have "(3 / 2 :: rat) \<noteq> of_int n" for n :: int
  proof
    assume "(3 / 2 :: rat) = of_int n"
    then have "(of_int (2 * n) :: rat) = of_int 3"
      by simp
    then have "2 * n = 3"
      by (simp only: of_int_eq_iff)
    then show False
      by presburger
  qed
  moreover have "createPurchase emptyDb (exampleInput\<lparr>ip_totalInstallments := 3 / 2\<rparr>)
     = (Inl InvalidInteger, emptyDb)"
    by code_simp
  ultimately show ?thesis
    by (simp add: insertPurchaseSchema_def)
qed

subsection \<open>Dates and invoice months\<close>

declare makeDay.simps [simp del] showNat.simps [simp del]

lemma daysInMonth_bounds: "28 \<le> daysInMonth y m" "daysInMonth y m \<le> 31"
  by (simp_all add: daysInMonth_def)


lemma makeDay_valid: "d \<le> daysInMonth y m \<Longrightarrow> makeDay y m d = \<lparr>jsYear = y, jsMonth = m, jsDay = d\<rparr>"
  by (simp add: makeDay.simps [of y m d])

















subsection \<open>When createPurchase returns\<close>






subsection \<open>What createPurchase stores\<close>





subsection \<open>The installment value\<close>






subsection \<open>The invoice months\<close>

text \<open>
  Where the dates behave: a purchase on a day up to the 28th is billed from its own month
  when the day is before the closing day and from the following month otherwise, and the
  installments then fall in consecutive months.
\<close>

lemma firstInvoiceDateOf_small_day:
  assumes "validDate (ip_purchaseDate ins)" and "dDay (ip_purchaseDate ins) \<le> 28"
  shows "firstInvoiceDateOf c ins =
           (if closingDay c \<le> dDay (ip_purchaseDate ins)
            then \<lparr>jsYear = dYear (ip_purchaseDate ins) + dMonth (ip_purchaseDate ins) div 12,
                  jsMonth = dMonth (ip_purchaseDate ins) mod 12,
                  jsDay = dDay (ip_purchaseDate ins)\<rparr>
            else \<lparr>jsYear = dYear (ip_purchaseDate ins),
                  jsMonth = dMonth (ip_purchaseDate ins) - 1,
                  jsDay = dDay (ip_purchaseDate ins)\<rparr>)"
proof -
  let ?d = "ip_purchaseDate ins"
  have "dDay ?d \<le> daysInMonth (dYear ?d + dMonth ?d div 12) (dMonth ?d mod 12)"
    using assms(2) daysInMonth_bounds(1) [of "dYear ?d + dMonth ?d div 12" "dMonth ?d mod 12"]
    by linarith
  from makeDay_valid [OF this] show ?thesis
    by (simp add: firstInvoiceDateOf_def newDate_def getDate_def getMonth_def setMonth_def)
qed

lemma setMonth_small_day:
  assumes "jsDay d \<le> 28"
  shows "setMonth d (getMonth d + int k) =
           \<lparr>jsYear = jsYear d + (jsMonth d + int k) div 12,
            jsMonth = (jsMonth d + int k) mod 12,
            jsDay = jsDay d\<rparr>"
proof -
  have "jsDay d \<le> daysInMonth (jsYear d + (jsMonth d + int k) div 12) ((jsMonth d + int k) mod 12)"
    using assms
      daysInMonth_bounds(1) [of "jsYear d + (jsMonth d + int k) div 12" "(jsMonth d + int k) mod 12"]
    by linarith
  from makeDay_valid [OF this] show ?thesis
    by (simp add: setMonth_def getMonth_def)
qed

text \<open>
  The examples of the specification hold: closing day 15 and purchases on 14 and 15 March
  2024; closing day 10 and a purchase on 20 December 2024 in three installments.
\<close>

lemma first_invoice_month_examples:
  "invoiceMonthOf (firstInvoiceDateOf (exampleCard\<lparr>closingDay := 15\<rparr>)
      (exampleInput\<lparr>ip_purchaseDate := \<lparr>dYear = 2024, dMonth = 3, dDay = 14\<rparr>\<rparr>)) = ''2024-03''"
  "invoiceMonthOf (firstInvoiceDateOf (exampleCard\<lparr>closingDay := 15\<rparr>)
      (exampleInput\<lparr>ip_purchaseDate := \<lparr>dYear = 2024, dMonth = 3, dDay = 15\<rparr>\<rparr>)) = ''2024-04''"
  by code_simp+

lemma installment_months_example:
  "map p_invoiceMonth (purchases (snd (createPurchase emptyDb exampleInput)))
     = [''2025-01'', ''2025-02'', ''2025-03'']"
  by (simp add: createPurchase_example televisionDb_def televisionRow_def)

text \<open>
  C2 fails on the code at the end of a month. A purchase on 31 January 2024 with closing
  day 10 is on or after the closing day, so its first installment belongs to February
  2024; \<^verbatim>\<open>setMonth\<close> turns 31 January into 31 February, which is 2 March, and the
  installment is billed in March.
\<close>

theorem january_31_billed_in_march:
  "closingDay exampleCard \<le> getDate (newDate \<lparr>dYear = 2024, dMonth = 1, dDay = 31\<rparr>) \<and>
   firstInvoiceDateOf exampleCard
     (exampleInput\<lparr>ip_purchaseDate := \<lparr>dYear = 2024, dMonth = 1, dDay = 31\<rparr>\<rparr>)
     = \<lparr>jsYear = 2024, jsMonth = 2, jsDay = 2\<rparr> \<and>
   map p_invoiceMonth (purchases (snd (createPurchase emptyDb
     (exampleInput\<lparr>ip_purchaseDate := \<lparr>dYear = 2024, dMonth = 1, dDay = 31\<rparr>,
                    ip_totalInstallments := 1\<rparr>)))) = [''2024-03'']"
  by code_simp

text \<open>
  C3 fails on the code for the same reason. A purchase on 30 January 2024 on a card with
  closing day 31 is billed from January; the second installment is built from 30
  February, which is 1 March, so the three installments fall in January, March and
  March: February is skipped and March is billed twice.
\<close>

theorem january_30_skips_february:
  "map p_invoiceMonth (purchases (snd (createPurchase emptyDb
     (exampleInput\<lparr>ip_cardId := 2,
                    ip_purchaseDate := \<lparr>dYear = 2024, dMonth = 1, dDay = 30\<rparr>\<rparr>))))
     = [''2024-01'', ''2024-03'', ''2024-03'']"
  by code_simp

end
